theory Spec2Isabelle
  imports Main
begin

section \<open>JavaScript values shared by the hooks\<close>

text \<open>
  The hooks of \<^verbatim>\<open>src/hooks/useExecutions.ts\<close> and the \<^verbatim>\<open>useWorkflows\<close> hook are
  React state machines: every \<^verbatim>\<open>useState\<close> cell is a field of a state record, every
  \<^verbatim>\<open>setX(v)\<close> is a record update, and an \<^verbatim>\<open>async\<close> function is cut at its single
  \<^verbatim>\<open>await\<close> into the part that runs when the operation is called and the part that
  runs when the awaited promise settles. A settled promise is a value of
  \<open>js_error + 'a\<close> (\<open>Inl\<close> the rejection). Operations are taken to be called from the
  latest render, so the values a callback closes over are the fields of the current
  state; functional updates (\<^verbatim>\<open>setX(prev => ...)\<close>) read the state at settle time.
\<close>

datatype js_error =
    AxiosError "string option" string
  | PlainError string
  | NonError

text \<open>
  \<open>AxiosError r m\<close>: \<^verbatim>\<open>err.response?.data?.message\<close> is \<open>r\<close>, \<^verbatim>\<open>err.message\<close> is \<open>m\<close>;
  \<open>PlainError m\<close> is \<^verbatim>\<open>new Error(m)\<close>; \<open>NonError\<close> is any thrown value that is not
  an \<^verbatim>\<open>Error\<close>.
\<close>

fun isAxiosError :: "js_error \<Rightarrow> bool" where
  "isAxiosError (AxiosError r m) = True"
| "isAxiosError (PlainError m) = False"
| "isAxiosError NonError = False"

fun instanceof_Error :: "js_error \<Rightarrow> bool" where
  "instanceof_Error (AxiosError r m) = True"
| "instanceof_Error (PlainError m) = True"
| "instanceof_Error NonError = False"

definition truthy :: "string option \<Rightarrow> bool" where
  "truthy v = (case v of None \<Rightarrow> False | Some str \<Rightarrow> str \<noteq> [])"

fun err_message :: "js_error \<Rightarrow> string" where
  "err_message (AxiosError r m) = m"
| "err_message (PlainError m) = m"
| "err_message NonError = []"

text \<open>\<^verbatim>\<open>err.response?.data?.message || err.message\<close>\<close>

fun axios_message :: "js_error \<Rightarrow> string" where
  "axios_message (AxiosError r m) =
     (case r of None \<Rightarrow> m | Some rm \<Rightarrow> if rm \<noteq> [] then rm else m)"
| "axios_message (PlainError m) = m"
| "axios_message NonError = []"

section \<open>The API types (\<^verbatim>\<open>n8n-api-types.ts\<close>)\<close>

datatype ExecutionStatus =
  Canceled | Error | Running | Success | Waiting | Crashed | New | Unknown

datatype ExecutionMode = Manual | Trigger | Webhook | Retry | Cron | Init

text \<open>
  \<^verbatim>\<open>Execution\<close>: the fields are prefixed where the name is used by another record
  (\<^verbatim>\<open>id\<close>, \<^verbatim>\<open>mode\<close>, \<^verbatim>\<open>status\<close>, \<^verbatim>\<open>workflowId\<close>). The nested \<^verbatim>\<open>data\<close>,
  \<^verbatim>\<open>customData\<close> and \<^verbatim>\<open>project\<close> objects, which the hooks never read, are left to the
  record's extension.
\<close>

record Execution =
  exec_id :: string
  finished :: bool
  exec_mode :: ExecutionMode
  retryOf :: "string option"
  retrySuccessId :: "string option"
  startedAt :: string
  stoppedAt :: "string option"
  exec_workflowId :: string
  workflowName :: "string option"
  exec_status :: ExecutionStatus
  waitTill :: "string option"
  executionTime :: "nat option"

record ExecutionListResponse =
  data :: "Execution list"
  nextCursor :: "string option"
  numberOfTotalRecords :: "nat option"

record GetExecutionsQuery =
  limit :: nat
  q_cursor :: "string option"
  q_status :: "ExecutionStatus option"
  q_workflowId :: "string option"

section \<open>The executions list controller (\<^verbatim>\<open>useExecutions\<close>)\<close>

text \<open>
  Both hooks of \<^verbatim>\<open>useExecutions.ts\<close> take \<^verbatim>\<open>apiClient\<close>, \<^verbatim>\<open>baseUrl\<close> and \<^verbatim>\<open>apiKey\<close>
  and define the same \<^verbatim>\<open>getClient\<close>; \<open>apiClient\<close> says whether a client was passed.
\<close>

record ClientOptions =
  apiClient :: bool
  baseUrl :: "string option"
  apiKey :: "string option"

record UseExecutionsOptions = ClientOptions +
  initialLimit :: nat

record exec_state =
  executions :: "Execution list"
  loading :: bool
  refreshing :: bool
  error :: "string option"
  hasMore :: bool
  totalRecords :: nat
  cursor :: "string option"
  statusFilter :: "ExecutionStatus option"
  workflowFilter :: "string option"

definition init_state :: exec_state where
  "init_state =
     \<lparr>executions = [], loading = True, refreshing = False, error = None, hasMore = True,
      totalRecords = 0, cursor = None, statusFilter = None, workflowFilter = None\<rparr>"

text \<open>\<^verbatim>\<open>getClient\<close> throws when neither a client nor both credentials are given.\<close>

definition getClient :: "'a ClientOptions_scheme \<Rightarrow> js_error + unit" where
  "getClient opts =
     (if apiClient opts then Inr ()
      else if \<not> truthy (baseUrl opts) \<or> \<not> truthy (apiKey opts)
      then Inl (PlainError ''Either apiClient or baseUrl and apiKey must be provided'')
      else Inr ())"

text \<open>A request in flight: the query sent and the \<^verbatim>\<open>replace\<close> flag its continuation holds.\<close>

record request =
  req_params :: GetExecutionsQuery
  req_replace :: bool

text \<open>\<^verbatim>\<open>fetchExecutions\<close>, up to the \<^verbatim>\<open>await\<close>.\<close>

definition fetchExecutions_begin :: "bool \<Rightarrow> exec_state \<Rightarrow> exec_state" where
  "fetchExecutions_begin replace s =
     (s\<lparr>loading := (if replace then True else loading s)\<rparr>)\<lparr>error := None\<rparr>"

text \<open>The rest of the \<^verbatim>\<open>try\<close> block, once the response has arrived.\<close>

definition fetchExecutions_then :: "bool \<Rightarrow> ExecutionListResponse \<Rightarrow> exec_state \<Rightarrow> exec_state" where
  "fetchExecutions_then replace resp s =
     s\<lparr>executions := (if replace then data resp else executions s @ data resp),
       cursor := nextCursor resp,
       hasMore := (truthy (nextCursor resp) \<and> length (data resp) > 0),
       totalRecords := (case numberOfTotalRecords resp of
                          Some n \<Rightarrow> n | None \<Rightarrow> length (data resp))\<rparr>"

definition fetchExecutions_catch :: "js_error \<Rightarrow> exec_state \<Rightarrow> exec_state" where
  "fetchExecutions_catch err s =
     s\<lparr>error := Some (if isAxiosError err then axios_message err
                       else ''Failed to fetch executions'')\<rparr>"

definition fetchExecutions_finally :: "exec_state \<Rightarrow> exec_state" where
  "fetchExecutions_finally s = s\<lparr>loading := False, refreshing := False\<rparr>"

text \<open>What runs when the awaited \<^verbatim>\<open>client.get\<close> settles.\<close>

definition fetchExecutions_settle ::
  "bool \<Rightarrow> js_error + ExecutionListResponse \<Rightarrow> exec_state \<Rightarrow> exec_state" where
  "fetchExecutions_settle replace outcome s =
     fetchExecutions_finally
       (case outcome of
          Inr resp \<Rightarrow> fetchExecutions_then replace resp s
        | Inl err \<Rightarrow> fetchExecutions_catch err s)"

text \<open>
  Calling \<^verbatim>\<open>fetchExecutions(params, replace)\<close>: the new state and the request sent, if
  any. When \<^verbatim>\<open>getClient\<close> throws, \<^verbatim>\<open>catch\<close> and \<^verbatim>\<open>finally\<close> run at once and nothing is
  sent.
\<close>

definition fetchExecutions ::
  "UseExecutionsOptions \<Rightarrow> GetExecutionsQuery \<Rightarrow> bool \<Rightarrow> exec_state
     \<Rightarrow> exec_state \<times> request option" where
  "fetchExecutions opts params replace s =
     (let s1 = fetchExecutions_begin replace s in
      case getClient opts of
        Inl err \<Rightarrow> (fetchExecutions_finally (fetchExecutions_catch err s1), None)
      | Inr u \<Rightarrow> (s1, Some \<lparr>req_params = params, req_replace = replace\<rparr>))"

definition refresh :: "UseExecutionsOptions \<Rightarrow> exec_state \<Rightarrow> exec_state \<times> request option" where
  "refresh opts s =
     fetchExecutions opts
       \<lparr>limit = initialLimit opts, q_cursor = None,
        q_status = statusFilter s, q_workflowId = workflowFilter s\<rparr>
       True
       (s\<lparr>refreshing := True, cursor := None\<rparr>)"

definition loadMore :: "UseExecutionsOptions \<Rightarrow> exec_state \<Rightarrow> exec_state \<times> request option" where
  "loadMore opts s =
     (if loading s \<or> \<not> hasMore s then (s, None)
      else fetchExecutions opts
             \<lparr>limit = initialLimit opts, q_cursor = cursor s,
              q_status = statusFilter s, q_workflowId = workflowFilter s\<rparr>
             False s)"

definition handleSetStatusFilter :: "ExecutionStatus option \<Rightarrow> exec_state \<Rightarrow> exec_state" where
  "handleSetStatusFilter v s =
     s\<lparr>statusFilter := v, cursor := None, executions := [], hasMore := True\<rparr>"

definition handleSetWorkflowFilter :: "string option \<Rightarrow> exec_state \<Rightarrow> exec_state" where
  "handleSetWorkflowFilter v s =
     s\<lparr>workflowFilter := v, cursor := None, executions := [], hasMore := True\<rparr>"

text \<open>
  The \<^verbatim>\<open>useEffect\<close> with dependencies \<^verbatim>\<open>[statusFilter, workflowFilter, ...]\<close>: it runs
  after the first render and after a render in which a filter changed.
\<close>

definition effect_fetch :: "UseExecutionsOptions \<Rightarrow> exec_state \<Rightarrow> exec_state \<times> request option" where
  "effect_fetch opts s =
     fetchExecutions opts
       \<lparr>limit = initialLimit opts, q_cursor = None,
        q_status = statusFilter s, q_workflowId = workflowFilter s\<rparr>
       True s"

subsection \<open>The controller with its requests in flight\<close>

text \<open>
  \<open>inflight\<close> lists the requests sent and not yet settled, oldest first. \<open>Settle i r\<close>
  is the \<open>i\<close>-th of them settling with \<open>r\<close>: the network may answer in any order.
\<close>

record exec_world =
  st :: exec_state
  inflight :: "request list"

datatype exec_event =
    Refresh
  | LoadMore
  | SetStatusFilter "ExecutionStatus option"
  | SetWorkflowFilter "string option"
  | Settle nat "js_error + ExecutionListResponse"

definition issue :: "exec_state \<times> request option \<Rightarrow> request list \<Rightarrow> exec_world" where
  "issue r pend =
     \<lparr>st = fst r, inflight = pend @ (case snd r of None \<Rightarrow> [] | Some q \<Rightarrow> [q])\<rparr>"

fun step :: "UseExecutionsOptions \<Rightarrow> exec_event \<Rightarrow> exec_world \<Rightarrow> exec_world" where
  "step opts Refresh w = issue (refresh opts (st w)) (inflight w)"
| "step opts LoadMore w = issue (loadMore opts (st w)) (inflight w)"
| "step opts (SetStatusFilter v) w =
     (let s1 = handleSetStatusFilter v (st w) in
      if v = statusFilter (st w) then w\<lparr>st := s1\<rparr>
      else issue (effect_fetch opts s1) (inflight w))"
| "step opts (SetWorkflowFilter v) w =
     (let s1 = handleSetWorkflowFilter v (st w) in
      if v = workflowFilter (st w) then w\<lparr>st := s1\<rparr>
      else issue (effect_fetch opts s1) (inflight w))"
| "step opts (Settle i outcome) w =
     (if i < length (inflight w)
      then \<lparr>st = fetchExecutions_settle (req_replace (inflight w ! i)) outcome (st w),
            inflight = take i (inflight w) @ drop (Suc i) (inflight w)\<rparr>
      else w)"

fun run :: "UseExecutionsOptions \<Rightarrow> exec_event list \<Rightarrow> exec_world \<Rightarrow> exec_world" where
  "run opts [] w = w"
| "run opts (ev # evs) w = run opts evs (step opts ev w)"

definition mount :: "UseExecutionsOptions \<Rightarrow> exec_world" where
  "mount opts = issue (effect_fetch opts init_state) []"

section \<open>The execution detail controller (\<^verbatim>\<open>useExecution\<close>)\<close>

record UseExecutionOptions = ClientOptions +
  executionId :: string
  includeData :: bool

record detail_state =
  execution :: "Execution option"
  d_loading :: bool
  d_refreshing :: bool
  d_error :: "string option"
  retrying :: bool
  retryError :: "string option"

definition init_detail :: detail_state where
  "init_detail =
     \<lparr>execution = None, d_loading = True, d_refreshing = False, d_error = None,
      retrying = False, retryError = None\<rparr>"

definition fetchExecution_begin :: "bool \<Rightarrow> detail_state \<Rightarrow> detail_state" where
  "fetchExecution_begin isRefresh s =
     (if isRefresh then s\<lparr>d_refreshing := True\<rparr> else s\<lparr>d_loading := True\<rparr>)\<lparr>d_error := None\<rparr>"

definition fetchExecution_catch :: "js_error \<Rightarrow> detail_state \<Rightarrow> detail_state" where
  "fetchExecution_catch err s =
     s\<lparr>d_error := Some (if isAxiosError err then axios_message err
                         else ''Failed to fetch execution'')\<rparr>"

definition fetchExecution_finally :: "detail_state \<Rightarrow> detail_state" where
  "fetchExecution_finally s = s\<lparr>d_loading := False, d_refreshing := False\<rparr>"

definition fetchExecution_settle :: "js_error + Execution \<Rightarrow> detail_state \<Rightarrow> detail_state" where
  "fetchExecution_settle outcome s =
     fetchExecution_finally
       (case outcome of
          Inr e \<Rightarrow> s\<lparr>execution := Some e\<rparr>
        | Inl err \<Rightarrow> fetchExecution_catch err s)"

text \<open>
  Calling \<^verbatim>\<open>fetchExecution(isRefresh)\<close>: the new state and, when the GET was sent, the
  id it asks for.
\<close>

definition fetchExecution ::
  "UseExecutionOptions \<Rightarrow> bool \<Rightarrow> detail_state \<Rightarrow> detail_state \<times> string option" where
  "fetchExecution opts isRefresh s =
     (let s1 = fetchExecution_begin isRefresh s in
      case getClient opts of
        Inl err \<Rightarrow> (fetchExecution_finally (fetchExecution_catch err s1), None)
      | Inr u \<Rightarrow> (s1, Some (executionId opts)))"

text \<open>
  \<^verbatim>\<open>retry\<close> either returns at once (\<open>Returned\<close>: no entity shown, or \<^verbatim>\<open>getClient\<close>
  threw) or posts to the retry endpoint of \<^verbatim>\<open>executionId\<close> and waits (\<open>Posted\<close>).
\<close>

datatype retry_step = Returned "Execution option" | Posted string

definition retry_catch :: "js_error \<Rightarrow> detail_state \<Rightarrow> detail_state" where
  "retry_catch err s =
     s\<lparr>retryError := Some (if isAxiosError err then axios_message err
                            else ''Failed to retry execution'')\<rparr>"

definition retry :: "UseExecutionOptions \<Rightarrow> detail_state \<Rightarrow> detail_state \<times> retry_step" where
  "retry opts s =
     (if execution s = None then (s, Returned None)
      else
        let s1 = s\<lparr>retrying := True, retryError := None\<rparr> in
        case getClient opts of
          Inl err \<Rightarrow> ((retry_catch err s1)\<lparr>retrying := False\<rparr>, Returned None)
        | Inr u \<Rightarrow> (s1, Posted (executionId opts)))"

text \<open>When the POST settles: the new state and the value \<^verbatim>\<open>retry\<close> resolves to.\<close>

definition retry_settle ::
  "js_error + Execution \<Rightarrow> detail_state \<Rightarrow> detail_state \<times> Execution option" where
  "retry_settle outcome s =
     (case outcome of
        Inr e \<Rightarrow> (s\<lparr>execution := Some e, retrying := False\<rparr>, Some e)
      | Inl err \<Rightarrow> ((retry_catch err s)\<lparr>retrying := False\<rparr>, None))"

section \<open>The workflows list controller (\<^verbatim>\<open>useWorkflows\<close>)\<close>

record WorkflowTag =
  tag_id :: string
  tag_name :: string

record Workflow =
  wf_id :: string
  wf_name :: string
  active :: bool
  tags :: "WorkflowTag list"
  createdAt :: string
  updatedAt :: string
  nodes :: "nat option"
  connections :: "nat option"

record WorkflowsResponse =
  wf_data :: "Workflow list"
  wf_nextCursor :: "string option"

record wf_params =
  wp_limit :: nat
  wp_cursor :: "string option"
  wp_filter :: "string option"

record wf_state =
  workflows :: "Workflow list"
  wf_loading :: bool
  wf_refreshing :: bool
  wf_error :: "string option"
  wf_hasMore :: bool
  wf_cursor :: "string option"
  searchQuery :: string

definition init_wf :: wf_state where
  "init_wf =
     \<lparr>workflows = [], wf_loading = True, wf_refreshing = False, wf_error = None,
      wf_hasMore = True, wf_cursor = None, searchQuery = []\<rparr>"

record wf_request =
  wreq_params :: wf_params
  wreq_isRefresh :: bool

definition fetchWorkflows_begin :: "bool \<Rightarrow> wf_state \<Rightarrow> wf_state" where
  "fetchWorkflows_begin isRefresh s =
     (if isRefresh then s\<lparr>wf_refreshing := True, wf_cursor := None\<rparr>
      else s\<lparr>wf_loading := True\<rparr>)\<lparr>wf_error := None\<rparr>"

definition fetchWorkflows_params :: "nat \<Rightarrow> bool \<Rightarrow> string option \<Rightarrow> wf_state \<Rightarrow> wf_params" where
  "fetchWorkflows_params pageSize isRefresh searchFilter s =
     \<lparr>wp_limit = pageSize,
      wp_cursor = (if \<not> isRefresh \<and> truthy (wf_cursor s) then wf_cursor s else None),
      wp_filter = (if truthy searchFilter then searchFilter else None)\<rparr>"

definition fetchWorkflows_then :: "bool \<Rightarrow> WorkflowsResponse \<Rightarrow> wf_state \<Rightarrow> wf_state" where
  "fetchWorkflows_then isRefresh response s =
     (let s1 = s\<lparr>workflows := (if isRefresh then wf_data response
                                else workflows s @ wf_data response)\<rparr> in
      if truthy (wf_nextCursor response)
      then s1\<lparr>wf_cursor := wf_nextCursor response, wf_hasMore := True\<rparr>
      else s1\<lparr>wf_hasMore := False\<rparr>)"

definition fetchWorkflows_catch :: "js_error \<Rightarrow> wf_state \<Rightarrow> wf_state" where
  "fetchWorkflows_catch err s =
     s\<lparr>wf_error := Some (if instanceof_Error err then err_message err
                          else ''Failed to fetch workflows'')\<rparr>"

definition fetchWorkflows_finally :: "wf_state \<Rightarrow> wf_state" where
  "fetchWorkflows_finally s = s\<lparr>wf_loading := False, wf_refreshing := False\<rparr>"

definition fetchWorkflows_settle ::
  "bool \<Rightarrow> js_error + WorkflowsResponse \<Rightarrow> wf_state \<Rightarrow> wf_state" where
  "fetchWorkflows_settle isRefresh outcome s =
     fetchWorkflows_finally
       (case outcome of
          Inr response \<Rightarrow> fetchWorkflows_then isRefresh response s
        | Inl err \<Rightarrow> fetchWorkflows_catch err s)"

text \<open>
  Calling \<^verbatim>\<open>fetchWorkflows(isRefresh, searchFilter)\<close>. \<^verbatim>\<open>n8nApi.getWorkflows\<close> is
  \<^verbatim>\<open>async\<close>, so its "API not configured" error is a rejection of the awaited promise
  like any other.
\<close>

definition fetchWorkflows ::
  "nat \<Rightarrow> bool \<Rightarrow> string option \<Rightarrow> wf_state \<Rightarrow> wf_state \<times> wf_request" where
  "fetchWorkflows pageSize isRefresh searchFilter s =
     (fetchWorkflows_begin isRefresh s,
      \<lparr>wreq_params = fetchWorkflows_params pageSize isRefresh searchFilter s,
       wreq_isRefresh = isRefresh\<rparr>)"

definition wf_refresh :: "nat \<Rightarrow> wf_state \<Rightarrow> wf_state \<times> wf_request" where
  "wf_refresh pageSize s =
     fetchWorkflows pageSize True (Some (searchQuery s)) (s\<lparr>wf_cursor := None\<rparr>)"

definition wf_loadMore :: "nat \<Rightarrow> wf_state \<Rightarrow> wf_state \<times> wf_request option" where
  "wf_loadMore pageSize s =
     (if \<not> wf_loading s \<and> \<not> wf_refreshing s \<and> wf_hasMore s
      then (let r = fetchWorkflows pageSize False (Some (searchQuery s)) s
            in (fst r, Some (snd r)))
      else (s, None))"

definition searchWorkflows :: "string \<Rightarrow> wf_state \<Rightarrow> wf_state" where
  "searchWorkflows query s =
     s\<lparr>searchQuery := query, wf_cursor := None, workflows := [], wf_hasMore := True\<rparr>"

text \<open>
  The \<^verbatim>\<open>useEffect\<close> on \<^verbatim>\<open>[searchQuery]\<close>; its test \<^verbatim>\<open>searchQuery !== undefined || ...\<close>
  holds for every string.
\<close>

definition search_effect :: "nat \<Rightarrow> wf_state \<Rightarrow> wf_state \<times> wf_request" where
  "search_effect pageSize s = fetchWorkflows pageSize True (Some (searchQuery s)) s"

text \<open>
  \<^verbatim>\<open>n8nApi.toggleWorkflowActive\<close> sends a PATCH of the \<^verbatim>\<open>active\<close> field; \<^verbatim>\<open>toggleActive\<close>
  awaits it before it touches the state.
\<close>

record patch_request =
  patch_id :: string
  patch_active :: bool

definition activateWorkflow :: "string \<Rightarrow> patch_request" where
  "activateWorkflow i = \<lparr>patch_id = i, patch_active = True\<rparr>"

definition deactivateWorkflow :: "string \<Rightarrow> patch_request" where
  "deactivateWorkflow i = \<lparr>patch_id = i, patch_active = False\<rparr>"

definition toggleWorkflowActive :: "string \<Rightarrow> bool \<Rightarrow> patch_request" where
  "toggleWorkflowActive i a = (if a then activateWorkflow i else deactivateWorkflow i)"

definition toggleActive :: "string \<Rightarrow> bool \<Rightarrow> wf_state \<Rightarrow> wf_state \<times> patch_request" where
  "toggleActive workflowId a s = (s, toggleWorkflowActive workflowId a)"

text \<open>
  When the PATCH settles: the new state and how the promise of \<^verbatim>\<open>toggleActive\<close>
  settles (\<open>Inl err\<close>: \<^verbatim>\<open>throw err\<close>).
\<close>

definition toggleActive_settle ::
  "string \<Rightarrow> js_error + Workflow \<Rightarrow> wf_state \<Rightarrow> wf_state \<times> (js_error + unit)" where
  "toggleActive_settle workflowId outcome s =
     (case outcome of
        Inr updatedWorkflow \<Rightarrow>
          (s\<lparr>workflows :=
               map (\<lambda>w. if wf_id w = workflowId
                        then w\<lparr>active := active updatedWorkflow\<rparr> else w)
                   (workflows s)\<rparr>,
           Inr ())
      | Inl err \<Rightarrow>
          (s\<lparr>wf_error := Some (if instanceof_Error err then err_message err
                                else ''Failed to update workflow'')\<rparr>,
           Inl err))"

section \<open>Example data for the closed instances\<close>

definition example_opts :: UseExecutionsOptions where
  "example_opts =
     \<lparr>apiClient = False, baseUrl = Some ''https://n8n.example.com/api/v1'',
      apiKey = Some ''secret'', initialLimit = 20\<rparr>"

definition example_opts_unconfigured :: UseExecutionsOptions where
  "example_opts_unconfigured =
     \<lparr>apiClient = False, baseUrl = None, apiKey = None, initialLimit = 20\<rparr>"

definition example_detail_opts :: UseExecutionOptions where
  "example_detail_opts =
     \<lparr>apiClient = False, baseUrl = Some ''https://n8n.example.com/api/v1'',
      apiKey = Some ''secret'', executionId = ''e1'', includeData = True\<rparr>"

definition example_execution :: "string \<Rightarrow> string option \<Rightarrow> ExecutionStatus \<Rightarrow> Execution" where
  "example_execution i r stt =
     \<lparr>exec_id = i, finished = True,
      exec_mode = (case r of None \<Rightarrow> Trigger | Some orig \<Rightarrow> Retry),
      retryOf = r, retrySuccessId = None, startedAt = ''2024-01-01T00:00:00Z'',
      stoppedAt = Some ''2024-01-01T00:00:05Z'', exec_workflowId = ''w1'',
      workflowName = None, exec_status = stt, waitTill = None, executionTime = None\<rparr>"

definition example_page ::
  "string list \<Rightarrow> ExecutionStatus \<Rightarrow> string option \<Rightarrow> ExecutionListResponse" where
  "example_page ids stt c =
     \<lparr>data = map (\<lambda>i. example_execution i None stt) ids, nextCursor = c,
      numberOfTotalRecords = None\<rparr>"

text \<open>The list controller after mounting and receiving a first page \<open>[a, b]\<close> with cursor \<open>c1\<close>.\<close>

definition example_loaded :: exec_world where
  "example_loaded =
     run example_opts [Settle 0 (Inr (example_page [''a'', ''b''] Success (Some ''c1'')))]
       (mount example_opts)"

text \<open>The detail controller showing execution \<open>e1\<close>.\<close>

definition example_detail :: detail_state where
  "example_detail =
     fetchExecution_settle (Inr (example_execution ''e1'' None Error))
       (fst (fetchExecution example_detail_opts False init_detail))"

definition example_workflow :: "string \<Rightarrow> bool \<Rightarrow> Workflow" where
  "example_workflow i a =
     \<lparr>wf_id = i, wf_name = ''Nightly sync'', active = a, tags = [],
      createdAt = ''2024-01-01T00:00:00Z'', updatedAt = ''2024-01-02T00:00:00Z'',
      nodes = None, connections = None\<rparr>"

text \<open>The workflows controller after a first page with \<open>w1\<close> (active) and \<open>w2\<close>.\<close>

definition example_wf_loaded :: wf_state where
  "example_wf_loaded =
     fetchWorkflows_settle True
       (Inr \<lparr>wf_data = [example_workflow ''w1'' True, example_workflow ''w2'' False],
             wf_nextCursor = Some ''c1''\<rparr>)
       (fst (search_effect 20 init_wf))"

section \<open>Properties\<close>

lemmas exec_defs = fetchExecutions_def fetchExecutions_begin_def fetchExecutions_then_def
  fetchExecutions_catch_def fetchExecutions_finally_def fetchExecutions_settle_def
  refresh_def loadMore_def handleSetStatusFilter_def handleSetWorkflowFilter_def effect_fetch_def

lemmas detail_defs = fetchExecution_def fetchExecution_begin_def fetchExecution_catch_def
  fetchExecution_finally_def fetchExecution_settle_def retry_def retry_catch_def
  retry_settle_def init_detail_def

lemmas wf_defs = fetchWorkflows_def fetchWorkflows_begin_def fetchWorkflows_params_def
  fetchWorkflows_then_def fetchWorkflows_catch_def fetchWorkflows_finally_def
  fetchWorkflows_settle_def wf_refresh_def wf_loadMore_def searchWorkflows_def
  search_effect_def init_wf_def

lemmas example_defs = example_opts_def example_opts_unconfigured_def example_detail_opts_def
  example_execution_def example_page_def example_loaded_def example_detail_def
  mount_def init_state_def getClient_def truthy_def issue_def

lemma example_loaded_eval:
  "example_loaded =
     \<lparr>st = \<lparr>executions = [example_execution ''a'' None Success,
                           example_execution ''b'' None Success],
             loading = False, refreshing = False, error = None, hasMore = True,
             totalRecords = 2, cursor = Some ''c1'', statusFilter = None,
             workflowFilter = None\<rparr>,
      inflight = []\<rparr>"
  by (simp add: example_defs exec_defs)

lemma example_detail_eval:
  "example_detail =
     \<lparr>execution = Some (example_execution ''e1'' None Error), d_loading = False,
      d_refreshing = False, d_error = None, retrying = False, retryError = None\<rparr>"
  by (simp add: example_defs detail_defs)

lemma example_wf_loaded_eval:
  "example_wf_loaded =
     \<lparr>workflows = [example_workflow ''w1'' True, example_workflow ''w2'' False],
      wf_loading = False, wf_refreshing = False, wf_error = None, wf_hasMore = True,
      wf_cursor = Some ''c1'', searchQuery = []\<rparr>"
  by (simp add: example_wf_loaded_def wf_defs truthy_def)

lemma getClient_example [simp]: "getClient example_opts = Inr ()"
  by (simp add: example_opts_def getClient_def truthy_def)

lemma getClient_example_detail [simp]: "getClient example_detail_opts = Inr ()"
  by (simp add: example_detail_opts_def getClient_def truthy_def)

lemma getClient_unconfigured [simp]:
  "getClient example_opts_unconfigured
     = Inl (PlainError ''Either apiClient or baseUrl and apiKey must be provided'')"
  by (simp add: example_opts_unconfigured_def getClient_def truthy_def)

subsection \<open>Stale results\<close>

lemma settle_appends:
  "i < length (inflight w) \<Longrightarrow> \<not> req_replace (inflight w ! i) \<Longrightarrow>
   executions (st (step opts (Settle i (Inr resp)) w)) = executions (st w) @ data resp"
  by (simp add: exec_defs)

lemma settle_replaces:
  "i < length (inflight w) \<Longrightarrow> req_replace (inflight w ! i) \<Longrightarrow>
   executions (st (step opts (Settle i (Inr resp)) w)) = data resp"
  by (simp add: exec_defs)

text \<open>
  C1 (as stated, it fails). The list controller is loaded with \<open>[a, b]\<close>; a load-more is
  issued, the status filter is set to \<open>error\<close>, the fetch for the new filter settles
  with \<open>[x]\<close>, and then the load-more issued under the old filter settles with \<open>[c]\<close>:
  \<open>c\<close> is appended.
\<close>

theorem C1_stale_loadMore_counterexample:
  "executions (st (run example_opts
      [LoadMore, SetStatusFilter (Some Error),
       Settle 1 (Inr (example_page [''x''] Error None))] example_loaded))
     = [example_execution ''x'' None Error]
   \<and> executions (st (run example_opts
      [LoadMore, SetStatusFilter (Some Error),
       Settle 1 (Inr (example_page [''x''] Error None)),
       Settle 0 (Inr (example_page [''c''] Success None))] example_loaded))
     = [example_execution ''x'' None Error, example_execution ''c'' None Success]"
  by (simp add: example_loaded_eval) (simp add: example_defs exec_defs)

text \<open>
  C1 (amended). The controller keeps no generation: a load-more that settles after
  the filter was changed is appended to the list as it stands then. With a load-more
  issued, the status filter set to a new value and \<open>n\<close> requests in flight before:
  if the stale load-more settles first, the list is its page, until the fetch of the
  new filter settles and replaces it; if it settles last, the list is the page of the
  new filter followed by the stale page.
\<close>

theorem C1_stale_loadMore_is_appended:
  assumes "\<not> loading (st w)" and "hasMore (st w)" and "getClient opts = Inr ()"
    and "v \<noteq> statusFilter (st w)" and "n = length (inflight w)"
  shows "executions (st (run opts [LoadMore, SetStatusFilter v, Settle n (Inr stale)] w))
           = data stale
       \<and> executions (st (run opts [LoadMore, SetStatusFilter v, Settle n (Inr stale),
                                     Settle n (Inr fresh)] w))
           = data fresh
       \<and> executions (st (run opts [LoadMore, SetStatusFilter v, Settle (Suc n) (Inr fresh),
                                     Settle n (Inr stale)] w))
           = data fresh @ data stale"
  using assms by (simp add: exec_defs issue_def Let_def nth_append)

theorem C1_stale_loadMore_is_appended_witness:
  "\<not> loading (st example_loaded) \<and> hasMore (st example_loaded)
   \<and> getClient example_opts = Inr ()
   \<and> Some Error \<noteq> statusFilter (st example_loaded)
   \<and> 0 = length (inflight example_loaded)
   \<and> executions (st (run example_opts
        [LoadMore, SetStatusFilter (Some Error),
         Settle 0 (Inr (example_page [''c''] Success None))] example_loaded))
       = data (example_page [''c''] Success None)
   \<and> executions (st (run example_opts
        [LoadMore, SetStatusFilter (Some Error),
         Settle 0 (Inr (example_page [''c''] Success None)),
         Settle 0 (Inr (example_page [''x''] Error None))] example_loaded))
       = data (example_page [''x''] Error None)"
proof -
  have h1: "\<not> loading (st example_loaded)" and h2: "hasMore (st example_loaded)"
    and h4: "Some Error \<noteq> statusFilter (st example_loaded)"
    and h5: "0 = length (inflight example_loaded)"
    by (simp_all add: example_loaded_eval)
  have h3: "getClient example_opts = Inr ()"
    by simp
  show ?thesis
    using h1 h2 h3 h4 h5
      C1_stale_loadMore_is_appended [OF h1 h2 h3 h4 h5,
        where stale = "example_page [''c''] Success None"
          and fresh = "example_page [''x''] Error None"]
    by simp
qed

subsection \<open>Two refreshes\<close>

text \<open>
  C2 (as stated, it fails). With \<open>[a, b]\<close> loaded, \<^verbatim>\<open>refresh()\<close> is called twice; the
  first answer \<open>[c]\<close> replaces the list, and the second answer \<open>[d]\<close> replaces it again:
  neither is dropped.
\<close>

theorem C2_double_refresh_counterexample:
  "executions (st (run example_opts [Refresh, Refresh] example_loaded))
     = [example_execution ''a'' None Success, example_execution ''b'' None Success]
   \<and> executions (st (run example_opts
        [Refresh, Refresh, Settle 0 (Inr (example_page [''c''] Success None))]
        example_loaded))
     = [example_execution ''c'' None Success]
   \<and> executions (st (run example_opts
        [Refresh, Refresh, Settle 0 (Inr (example_page [''c''] Success None)),
         Settle 0 (Inr (example_page [''d''] Success None))] example_loaded))
     = [example_execution ''d'' None Success]"
  by (simp add: example_loaded_eval) (simp add: example_defs exec_defs)

text \<open>
  C2 (amended). After two calls of \<^verbatim>\<open>refresh()\<close> in a row, each answer replaces the
  whole list by its own page when it arrives, in either order of arrival; the list is
  the page that arrived last, and never the two pages together.
\<close>

theorem C2_double_refresh_both_replace:
  assumes "getClient opts = Inr ()" and "n = length (inflight w)"
  shows "executions (st (run opts [Refresh, Refresh, Settle n (Inr pa)] w)) = data pa
       \<and> executions (st (run opts [Refresh, Refresh, Settle n (Inr pa),
                                     Settle n (Inr pb)] w)) = data pb
       \<and> executions (st (run opts [Refresh, Refresh, Settle (Suc n) (Inr pb)] w)) = data pb
       \<and> executions (st (run opts [Refresh, Refresh, Settle (Suc n) (Inr pb),
                                     Settle n (Inr pa)] w)) = data pa"
  using assms by (simp add: exec_defs issue_def Let_def nth_append)

theorem C2_double_refresh_both_replace_witness:
  "getClient example_opts = Inr () \<and> 0 = length (inflight example_loaded)
   \<and> executions (st (run example_opts
        [Refresh, Refresh, Settle (Suc 0) (Inr (example_page [''d''] Success None)),
         Settle 0 (Inr (example_page [''c''] Success None))] example_loaded))
       = data (example_page [''c''] Success None)"
proof -
  have h1: "getClient example_opts = Inr ()"
    by simp
  have h2: "0 = length (inflight example_loaded)"
    by (simp add: example_loaded_eval)
  show ?thesis
    using h1 h2
      C2_double_refresh_both_replace [OF h1 h2,
        where pa = "example_page [''c''] Success None"
          and pb = "example_page [''d''] Success None"]
    by simp
qed

subsection \<open>Toggling a workflow\<close>

lemmas toggle_defs = toggleActive_def toggleActive_settle_def toggleWorkflowActive_def
  activateWorkflow_def deactivateWorkflow_def

text \<open>
  C3 (as stated, it fails). \<open>w1\<close> is active and \<^verbatim>\<open>toggleActive("w1", false)\<close> is called:
  the PATCH is sent, and the list still shows \<open>w1\<close> active while it is awaited.
\<close>

theorem C3_toggle_not_optimistic_counterexample:
  "map active (workflows example_wf_loaded) = [True, False]
   \<and> snd (toggleActive ''w1'' False example_wf_loaded)
       = \<lparr>patch_id = ''w1'', patch_active = False\<rparr>
   \<and> map active (workflows (fst (toggleActive ''w1'' False example_wf_loaded)))
       = [True, False]"
  by (simp add: example_wf_loaded_eval toggle_defs example_workflow_def)

text \<open>
  C3 (amended). \<^verbatim>\<open>toggleActive\<close> sends the PATCH and leaves the list as it is until the
  server answers. When the answer \<open>u\<close> arrives, the list has the same length and the
  same ids in the same order, every workflow with the given id has its \<open>active\<close> field
  set to that of \<open>u\<close> (all its other fields kept), and every other workflow is
  unchanged.
\<close>

theorem C3_toggle_applies_server_value:
  "workflows (fst (toggleActive workflowId a s)) = workflows s
   \<and> snd (toggleActive workflowId a s) = \<lparr>patch_id = workflowId, patch_active = a\<rparr>
   \<and> snd (toggleActive_settle workflowId (Inr u) s) = Inr ()
   \<and> map wf_id (workflows (fst (toggleActive_settle workflowId (Inr u) s)))
       = map wf_id (workflows s)
   \<and> (\<forall>i < length (workflows s).
        workflows (fst (toggleActive_settle workflowId (Inr u) s)) ! i
          = (if wf_id (workflows s ! i) = workflowId
             then (workflows s ! i)\<lparr>active := active u\<rparr>
             else workflows s ! i))"
  by (simp add: toggle_defs)

theorem C3_toggle_applies_server_value_witness:
  "(0::nat) < length (workflows example_wf_loaded)
   \<and> workflows (fst (toggleActive ''w1'' False example_wf_loaded))
       = workflows example_wf_loaded
   \<and> workflows (fst (toggleActive_settle ''w1'' (Inr (example_workflow ''w1'' False))
                        (fst (toggleActive ''w1'' False example_wf_loaded)))) ! 0
       = example_workflow ''w1'' False"
  using C3_toggle_applies_server_value
    [where workflowId = "''w1''" and a = False and s = example_wf_loaded
       and u = "example_workflow ''w1'' False"]
  by (simp add: example_wf_loaded_eval example_workflow_def toggleActive_def)

text \<open>
  C4 (as stated, it fails). The PATCH for \<open>w1\<close> is rejected: the promise of
  \<^verbatim>\<open>toggleActive\<close> is rejected with the same error, which the caller has to catch.
\<close>

theorem C4_toggle_rethrows_counterexample:
  "snd (toggleActive_settle ''w1'' (Inl (PlainError ''Network Error''))
          (fst (toggleActive ''w1'' False example_wf_loaded)))
     = Inl (PlainError ''Network Error'')"
  by (simp add: toggle_defs)

text \<open>
  C4 (amended). When the server call of \<^verbatim>\<open>toggleActive\<close> is rejected, the list is what
  it was before the call (so the \<open>active\<close> field of the workflow has its value from
  before), a message is stored in \<open>error\<close>, and the error is thrown again to the
  caller: the promise of \<^verbatim>\<open>toggleActive\<close> is rejected with it.
\<close>

theorem C4_toggle_failure_keeps_list_and_rethrows:
  "workflows (fst (toggleActive_settle workflowId (Inl err)
                     (fst (toggleActive workflowId a s)))) = workflows s
   \<and> workflows (fst (toggleActive_settle workflowId (Inl err) s')) = workflows s'
   \<and> wf_error (fst (toggleActive_settle workflowId (Inl err) s')) \<noteq> None
   \<and> snd (toggleActive_settle workflowId (Inl err) s') = Inl err"
  by (simp add: toggle_defs)

theorem C4_toggle_failure_keeps_list_and_rethrows_witness:
  "workflows (fst (toggleActive_settle ''w1'' (Inl (PlainError ''Network Error''))
                     (fst (toggleActive ''w1'' False example_wf_loaded))))
     = workflows example_wf_loaded
   \<and> wf_error (fst (toggleActive_settle ''w1'' (Inl (PlainError ''Network Error''))
                      (fst (toggleActive ''w1'' False example_wf_loaded))))
     \<noteq> None
   \<and> snd (toggleActive_settle ''w1'' (Inl (PlainError ''Network Error''))
            (fst (toggleActive ''w1'' False example_wf_loaded)))
     = Inl (PlainError ''Network Error'')"
  using C4_toggle_failure_keeps_list_and_rethrows
    [where workflowId = "''w1''" and a = False and s = example_wf_loaded
       and err = "PlainError ''Network Error''"
       and s' = "fst (toggleActive ''w1'' False example_wf_loaded)"]
  by simp

subsection \<open>\<open>hasMore\<close> after a page\<close>

lemma executions_hasMore_iff:
  "hasMore (fetchExecutions_settle replace (Inr resp) s)
     = (truthy (nextCursor resp) \<and> data resp \<noteq> [])"
  by (simp add: exec_defs)

lemma workflows_hasMore_iff:
  "wf_hasMore (fetchWorkflows_settle isRefresh (Inr response) s)
     = truthy (wf_nextCursor response)"
  by (simp add: wf_defs Let_def)

text \<open>
  C5 (the workflows controller departs from it). \<open>hasMore\<close> should be true exactly when
  the response has a non-empty cursor and at least one item, as \<open>executions_hasMore_iff\<close>
  shows for the executions controller. The workflows controller looks at the cursor
  only: an empty page with cursor \<open>c1\<close> leaves \<open>hasMore\<close> true.
\<close>

theorem C5_workflows_empty_page_keeps_hasMore:
  "wf_hasMore (fetchWorkflows_settle True (Inr \<lparr>wf_data = [], wf_nextCursor = Some ''c1''\<rparr>)
                 (fst (search_effect 20 init_wf)))
   \<and> \<not> hasMore (fetchExecutions_settle True
                   (Inr \<lparr>data = [], nextCursor = Some ''c1'', numberOfTotalRecords = None\<rparr>)
                   (fst (effect_fetch example_opts init_state)))"
  by (simp add: wf_defs exec_defs truthy_def)

subsection \<open>Load more\<close>

text \<open>
  In the workflows controller a load-more sets \<open>loading\<close>, so a second \<^verbatim>\<open>loadMore()\<close>
  called while the first is awaited does nothing.
\<close>

lemma wf_loadMore_blocks_second:
  "wf_loadMore pageSize (fst (wf_loadMore pageSize ws))
     = (fst (wf_loadMore pageSize ws), None)"
  by (simp add: wf_defs Let_def)

text \<open>
  C6 (the executions controller departs from it). \<^verbatim>\<open>loadMore()\<close> should do nothing
  while a fetch of any kind is in flight, another load-more included. The executions
  controller guards with \<open>loading\<close>, which a load-more does not set: with \<open>[a, b]\<close>
  loaded and cursor \<open>c1\<close>, two calls of \<^verbatim>\<open>loadMore()\<close> send the same request twice, and
  when both answers \<open>[c]\<close> have arrived the list is \<open>[a, b, c, c]\<close>. In the workflows
  controller, from the same situation, the second call sends nothing.
\<close>

theorem C6_executions_loadMore_twice_duplicates:
  "inflight (run example_opts [LoadMore, LoadMore] example_loaded)
     = [\<lparr>req_params = \<lparr>limit = 20, q_cursor = Some ''c1'', q_status = None,
                        q_workflowId = None\<rparr>, req_replace = False\<rparr>,
        \<lparr>req_params = \<lparr>limit = 20, q_cursor = Some ''c1'', q_status = None,
                        q_workflowId = None\<rparr>, req_replace = False\<rparr>]
   \<and> executions (st (run example_opts
        [LoadMore, LoadMore,
         Settle 0 (Inr (example_page [''c''] Success None)),
         Settle 0 (Inr (example_page [''c''] Success None))] example_loaded))
     = [example_execution ''a'' None Success, example_execution ''b'' None Success,
        example_execution ''c'' None Success, example_execution ''c'' None Success]
   \<and> snd (wf_loadMore 20 example_wf_loaded)
     = Some \<lparr>wreq_params = \<lparr>wp_limit = 20, wp_cursor = Some ''c1'', wp_filter = None\<rparr>,
             wreq_isRefresh = False\<rparr>
   \<and> snd (wf_loadMore 20 (fst (wf_loadMore 20 example_wf_loaded))) = None"
  by (simp add: example_loaded_eval example_wf_loaded_eval)
     (simp add: example_defs exec_defs wf_defs)

subsection \<open>Filter reset\<close>

text \<open>
  C7. Setting a filter empties the items, clears the cursor and sets \<open>hasMore\<close>, at
  once: in the state the handler leaves (\<open>handleSetStatusFilter\<close>,
  \<open>handleSetWorkflowFilter\<close>, \<open>searchWorkflows\<close>) and still so after the effect that
  follows has started the new fetch (\<open>step\<close>, \<open>search_effect\<close>), before anything
  settles. This holds for every state and every value.
\<close>

theorem C7_setFilter_resets_snapshot:
  "executions (handleSetStatusFilter v s) = [] \<and> cursor (handleSetStatusFilter v s) = None
     \<and> hasMore (handleSetStatusFilter v s)
   \<and> executions (handleSetWorkflowFilter wv s) = []
     \<and> cursor (handleSetWorkflowFilter wv s) = None
     \<and> hasMore (handleSetWorkflowFilter wv s)
   \<and> executions (st (step opts (SetStatusFilter v) w)) = []
     \<and> cursor (st (step opts (SetStatusFilter v) w)) = None
     \<and> hasMore (st (step opts (SetStatusFilter v) w))
   \<and> executions (st (step opts (SetWorkflowFilter wv) w)) = []
     \<and> cursor (st (step opts (SetWorkflowFilter wv) w)) = None
     \<and> hasMore (st (step opts (SetWorkflowFilter wv) w))
   \<and> workflows (searchWorkflows query ws) = [] \<and> wf_cursor (searchWorkflows query ws) = None
     \<and> wf_hasMore (searchWorkflows query ws)
   \<and> workflows (fst (search_effect pageSize (searchWorkflows query ws))) = []
     \<and> wf_cursor (fst (search_effect pageSize (searchWorkflows query ws))) = None
     \<and> wf_hasMore (fst (search_effect pageSize (searchWorkflows query ws)))"
  by (simp add: exec_defs issue_def Let_def searchWorkflows_def search_effect_def
        fetchWorkflows_def fetchWorkflows_begin_def split: sum.splits)

theorem C7_setFilter_resets_snapshot_witness:
  "executions (st example_loaded) \<noteq> []
   \<and> executions (st (step example_opts (SetStatusFilter (Some Error)) example_loaded)) = []
   \<and> cursor (st (step example_opts (SetStatusFilter (Some Error)) example_loaded)) = None
   \<and> hasMore (st (step example_opts (SetStatusFilter (Some Error)) example_loaded))
   \<and> inflight (step example_opts (SetStatusFilter (Some Error)) example_loaded) \<noteq> []"
  using C7_setFilter_resets_snapshot
    [where opts = example_opts and v = "Some Error" and w = example_loaded]
  by (simp add: example_loaded_eval effect_fetch_def fetchExecutions_def issue_def Let_def)

subsection \<open>Failed fetches\<close>

text \<open>
  C8. When a fetch of the executions list fails, the items are left as they were and
  a message is stored in \<open>error\<close>: whatever the state is when the rejection arrives
  (first two conjuncts), for a refresh and for a load-more followed from the call to
  the rejection (next two), and when \<open>getClient\<close> throws before anything is sent
  (last).
\<close>

theorem C8_failed_fetch_keeps_items:
  "executions (fetchExecutions_settle replace (Inl err) s) = executions s
   \<and> error (fetchExecutions_settle replace (Inl err) s) \<noteq> None
   \<and> executions (fetchExecutions_settle True (Inl err) (fst (refresh opts s))) = executions s
   \<and> executions (fetchExecutions_settle False (Inl err) (fst (loadMore opts s))) = executions s
   \<and> (getClient opts = Inl err \<longrightarrow>
        executions (fst (refresh opts s)) = executions s
        \<and> error (fst (refresh opts s)) \<noteq> None
        \<and> snd (refresh opts s) = None)"
  by (simp add: exec_defs Let_def split: sum.splits)

theorem C8_failed_fetch_keeps_items_witness:
  "executions (fetchExecutions_settle True (Inl (AxiosError None ''Network Error''))
                 (fst (refresh example_opts (st example_loaded))))
     = executions (st example_loaded)
   \<and> executions (st example_loaded) \<noteq> []
   \<and> error (fetchExecutions_settle True (Inl (AxiosError None ''Network Error''))
              (fst (refresh example_opts (st example_loaded))))
     = Some ''Network Error''
   \<and> getClient example_opts_unconfigured
       = Inl (PlainError ''Either apiClient or baseUrl and apiKey must be provided'')
   \<and> executions (fst (refresh example_opts_unconfigured (st example_loaded)))
       = executions (st example_loaded)
   \<and> error (fst (refresh example_opts_unconfigured (st example_loaded))) \<noteq> None"
  using C8_failed_fetch_keeps_items
    [where opts = example_opts and s = "st example_loaded" and replace = True
       and err = "AxiosError None ''Network Error''"]
    C8_failed_fetch_keeps_items
    [where opts = example_opts_unconfigured and s = "st example_loaded"
       and err = "PlainError ''Either apiClient or baseUrl and apiKey must be provided''"]
  by (simp add: example_loaded_eval fetchExecutions_settle_def fetchExecutions_catch_def
        fetchExecutions_finally_def)

subsection \<open>Retry in the detail controller\<close>

text \<open>
  C9. When an execution is shown and the retry request succeeds with the record \<open>r\<close>,
  the controller shows exactly \<open>r\<close> and \<^verbatim>\<open>retry\<close> resolves to \<open>r\<close>; nothing of the
  execution shown before is kept. The request goes to the retry endpoint of
  \<open>executionId\<close>. The same holds whatever the state is when the response arrives.
\<close>

theorem C9_retry_shows_returned_execution:
  assumes "execution s = Some e" and "getClient opts = Inr ()"
  shows "snd (retry opts s) = Posted (executionId opts)
       \<and> execution (fst (retry opts s)) = Some e
       \<and> execution (fst (retry_settle (Inr r) (fst (retry opts s)))) = Some r
       \<and> snd (retry_settle (Inr r) (fst (retry opts s))) = Some r
       \<and> execution (fst (retry_settle (Inr r) s')) = Some r
       \<and> snd (retry_settle (Inr r) s') = Some r"
  using assms by (simp add: retry_def retry_settle_def Let_def)

theorem C9_retry_shows_returned_execution_witness:
  "execution example_detail = Some (example_execution ''e1'' None Error)
   \<and> getClient example_detail_opts = Inr ()
   \<and> execution (fst (retry_settle (Inr (example_execution ''e2'' (Some ''e1'') Running))
                       (fst (retry example_detail_opts example_detail))))
       = Some (example_execution ''e2'' (Some ''e1'') Running)
   \<and> snd (retry_settle (Inr (example_execution ''e2'' (Some ''e1'') Running))
            (fst (retry example_detail_opts example_detail)))
       = Some (example_execution ''e2'' (Some ''e1'') Running)"
proof -
  have shown: "execution example_detail = Some (example_execution ''e1'' None Error)"
    by (simp add: example_detail_eval)
  have client: "getClient example_detail_opts = Inr ()"
    by simp
  show ?thesis
    using shown client
      C9_retry_shows_returned_execution [OF shown client,
        where r = "example_execution ''e2'' (Some ''e1'') Running"]
    by simp
qed

subsection \<open>The fetch flags\<close>

text \<open>
  C10. When a fetch completes, with a response or with an error, \<open>loading\<close> and
  \<open>refreshing\<close> are both false, in the list controller and in the detail controller;
  also when \<open>getClient\<close> throws and the fetch completes without a request.
\<close>

theorem C10_flags_cleared_when_fetch_completes:
  "\<not> loading (fetchExecutions_settle replace outcome s)
   \<and> \<not> refreshing (fetchExecutions_settle replace outcome s)
   \<and> (snd (fetchExecutions opts params replace s) = None \<longrightarrow>
        \<not> loading (fst (fetchExecutions opts params replace s))
        \<and> \<not> refreshing (fst (fetchExecutions opts params replace s)))
   \<and> \<not> d_loading (fetchExecution_settle doutcome ds)
   \<and> \<not> d_refreshing (fetchExecution_settle doutcome ds)
   \<and> (snd (fetchExecution dopts isRefresh ds) = None \<longrightarrow>
        \<not> d_loading (fst (fetchExecution dopts isRefresh ds))
        \<and> \<not> d_refreshing (fst (fetchExecution dopts isRefresh ds)))"
  by (simp add: exec_defs detail_defs Let_def split: sum.splits)

theorem C10_flags_cleared_when_fetch_completes_witness:
  "loading (fst (refresh example_opts (st example_loaded)))
   \<and> refreshing (fst (refresh example_opts (st example_loaded)))
   \<and> \<not> loading (fetchExecutions_settle True (Inl NonError)
                   (fst (refresh example_opts (st example_loaded))))
   \<and> \<not> refreshing (fetchExecutions_settle True (Inl NonError)
                      (fst (refresh example_opts (st example_loaded))))
   \<and> snd (fetchExecutions example_opts_unconfigured
            \<lparr>limit = 20, q_cursor = None, q_status = None, q_workflowId = None\<rparr> True init_state)
       = None
   \<and> \<not> loading (fst (fetchExecutions example_opts_unconfigured
            \<lparr>limit = 20, q_cursor = None, q_status = None, q_workflowId = None\<rparr> True init_state))"
  using C10_flags_cleared_when_fetch_completes
    [where replace = True and outcome = "Inl NonError"
       and s = "fst (refresh example_opts (st example_loaded))"]
    C10_flags_cleared_when_fetch_completes
    [where replace = True and opts = example_opts_unconfigured and s = init_state
       and params = "\<lparr>limit = 20, q_cursor = None, q_status = None, q_workflowId = None\<rparr>"]
  by (simp add: example_loaded_eval refresh_def fetchExecutions_def fetchExecutions_begin_def)

end
